theory Spec2Isabelle
  imports Complex_Main
begin

section \<open>Scope\<close>

text \<open>
  A shallow embedding of \<^verbatim>\<open>robo/fmin/fabolas.py\<close>: the fidelity transform and the
  optimization loop \<^verbatim>\<open>fabolas\<close>, block by block.
  \<^item> A float is the real number it denotes, and a numpy array of floats a list of reals;
    \<open>nan\<close> and \<open>inf\<close> are not modelled. In the fidelity transform the precision of
    \<^verbatim>\<open>np.log\<close> and \<^verbatim>\<open>np.exp\<close> and the rounding of each arithmetic result are
    functions of the environment, of which nothing is assumed. Elsewhere (differences of
    clock readings, the quotient \<^verbatim>\<open>s_max / float(subsets[...])\<close>) arithmetic is exact.
  \<^item> An exception is a value: a block returns \<open>Inl\<close> of the error, or \<open>Inr\<close> of its result,
    together with the state reached.
  \<^item> The collaborators (george kernels, the two Gaussian-process models, the acquisition
    function, the maximizer, the incumbent estimator, the random design, the objective
    function, the wall clock) are a record of functions on a world of their own. Their
    calls always return, and each call to a model, the acquisition function, the maximizer,
    the estimator or the objective function is written to a trace.
  \<^item> Logging is left out, and \<^verbatim>\<open>assert\<close> statements are taken to be enabled.
\<close>

section \<open>Errors and Python values\<close>

text \<open>
  The exceptions the module itself can raise. Exceptions raised inside the collaborators
  (the surrogate models, the acquisition function, the maximizer, the objective function)
  are outside the embedding: every collaborator call is taken to return.
\<close>

datatype error = AssertionError | TypeError | IndexError | ValueError

text \<open>\<^verbatim>\<open>int(v)\<close> on a float truncates towards zero.\<close>

definition py_int :: "real \<Rightarrow> int" where
  "py_int v = (if 0 \<le> v then \<lfloor>v\<rfloor> else \<lceil>v\<rceil>)"

text \<open>\<^verbatim>\<open>range(a, b)\<close>; \<^verbatim>\<open>range(n)\<close> is \<open>py_range 0 n\<close>.\<close>

definition py_range :: "int \<Rightarrow> int \<Rightarrow> int list" where
  "py_range a b = [a..b - 1]"

text \<open>
  \<^verbatim>\<open>np.argmin\<close> of a one-dimensional sequence: the first index of a least element;
  \<^verbatim>\<open>ValueError\<close> on an empty sequence.
\<close>

fun first_min :: "real list \<Rightarrow> nat" where
  "first_min [] = 0"
| "first_min [v] = 0"
| "first_min (v # w # ws) =
     (let j = first_min (w # ws) in if v \<le> (w # ws) ! j then 0 else Suc j)"

definition np_argmin :: "real list \<Rightarrow> error + nat" where
  "np_argmin ys = (if ys = [] then Inl ValueError else Inr (first_min ys))"

text \<open>
  The observation matrix \<^verbatim>\<open>X\<close> is kept as its list of rows, both while it is a
  Python list of arrays (initial design) and after \<^verbatim>\<open>X = np.array(X)\<close>. For the
  array, the empty row list stands for \<^verbatim>\<open>np.array([])\<close>, which is one-dimensional
  (shape \<^verbatim>\<open>(0,)\<close>): the two-index slice \<^verbatim>\<open>X[:, :-1]\<close> raises
  \<^verbatim>\<open>IndexError\<close> on it, and \<^verbatim>\<open>np.concatenate\<close> with a two-dimensional row
  raises \<^verbatim>\<open>ValueError\<close>, as it does when the row lengths differ.
\<close>

definition drop_last_column :: "real list list \<Rightarrow> error + real list list" where
  "drop_last_column rows = (if rows = [] then Inl IndexError else Inr (map butlast rows))"

definition np_concatenate_row :: "real list list \<Rightarrow> real list \<Rightarrow> error + real list list" where
  "np_concatenate_row rows new_x =
     (if rows \<noteq> [] \<and> list_all (\<lambda>r. length r = length new_x) rows
      then Inr (rows @ [new_x]) else Inl ValueError)"

section \<open>Collaborators\<close>

text \<open>
  The value of the variable \<^verbatim>\<open>kernel\<close>: it starts as the Python integer \<open>1\<close> and is
  multiplied by one Matern kernel per configuration dimension. \<^verbatim>\<open>len\<close> of a george
  kernel is its number of parameters, a collaborator's answer; \<^verbatim>\<open>len\<close> of a Python
  integer raises \<^verbatim>\<open>TypeError\<close>.
\<close>

datatype kernel =
    PyInt int
  | Matern52Kernel nat nat
  | BayesianLinearRegressionKernel nat nat nat
  | Product kernel kernel

fun py_len :: "(kernel \<Rightarrow> nat) \<Rightarrow> kernel \<Rightarrow> error + nat" where
  "py_len george_len (PyInt n) = Inl TypeError"
| "py_len george_len k = Inr (george_len k)"

definition ard_kernel :: "nat \<Rightarrow> kernel" where
  "ard_kernel n_dims =
     fold (\<lambda>d k. Product k (Matern52Kernel (n_dims + 1) d)) [0..<n_dims] (PyInt 1)"

datatype prior = EnvPrior nat nat nat

datatype model_id = Model_objective | Model_cost

datatype basis_func = Linear_bf | Quadratic_bf

text \<open>
  The calls the loop makes to its collaborators, in the order made. A training call
  carries \<^verbatim>\<open>do_optimize\<close> as given (\<open>None\<close> when the argument is left out).
\<close>

datatype event =
    Model_created model_id kernel prior int int basis_func nat "real list" "real list"
  | Acquisition_created "real list" "real list" "real list" nat
  | Marginalization_created
  | Maximizer_created "real list" "real list"
  | Objective_called "real list" real
  | Model_trained model_id "real list list" "real list" "bool option"
  | Incumbent_projected "real list list" real
  | Acquisition_updated
  | Maximizer_called

text \<open>
  The collaborators act on a world \<open>'w\<close> of their own (random generator, fitted models,
  wall clock), which the loop threads through every call. numpy's part is pure:
  \<open>np_log\<close> and \<open>np_exp\<close> are \<^verbatim>\<open>np.log\<close> and \<^verbatim>\<open>np.exp\<close> on doubles, and \<open>float64\<close>
  sends the exact result of an arithmetic operation on doubles to the double the operation
  returns.
\<close>

record 'w env =
  np_log :: "real \<Rightarrow> real"
  np_exp :: "real \<Rightarrow> real"
  float64 :: "real \<Rightarrow> real"
  kernel_len :: "kernel \<Rightarrow> nat"
  effect :: "event \<Rightarrow> 'w \<Rightarrow> 'w"
  clock :: "'w \<Rightarrow> real \<times> 'w"
  init_random_uniform :: "real list \<Rightarrow> real list \<Rightarrow> 'w \<Rightarrow> real list \<times> 'w"
  objective_function :: "real list \<Rightarrow> real \<Rightarrow> 'w \<Rightarrow> (real \<times> real) \<times> 'w"
  projected_incumbent_estimation ::
    "real list list \<Rightarrow> real \<Rightarrow> 'w \<Rightarrow> (real list \<times> real) \<times> 'w"
  maximize :: "'w \<Rightarrow> real list \<times> 'w"

section \<open>Fidelity transform (lines 18 to 25)\<close>

text \<open>
  The two functions at the top of the module, operation by operation: each subtraction,
  division, multiplication and addition of doubles is rounded by \<open>float64\<close>.
\<close>

definition transform :: "'w env \<Rightarrow> real \<Rightarrow> real \<Rightarrow> real \<Rightarrow> real" where
  "transform env s s_min s_max =
     float64 env
       (float64 env (np_log env s - np_log env s_min)
        / float64 env (np_log env s_max - np_log env s_min))"

text \<open>
  \<^verbatim>\<open>np.rint\<close> rounds a double to the nearest integer, a tie going to the even
  neighbour; the result is a double again, so no rounding error arises.
\<close>

definition rint :: "real \<Rightarrow> int" where
  "rint v =
     (let f = \<lfloor>v\<rfloor>; d = v - of_int f
      in if d < 1 / 2 then f
         else if 1 / 2 < d then f + 1
         else if even f then f else f + 1)"

definition retransform :: "'w env \<Rightarrow> real \<Rightarrow> real \<Rightarrow> real \<Rightarrow> real" where
  "retransform env s_transform s_min s_max =
     of_int (rint (np_exp env
       (float64 env
          (float64 env (s_transform * float64 env (np_log env s_max - np_log env s_min))
           + np_log env s_min))))"

text \<open>
  A call of \<^verbatim>\<open>transform\<close> with positional arguments. The function has three
  parameters and no defaults, so any other number of arguments raises
  \<^verbatim>\<open>TypeError\<close> before the body runs.
\<close>

fun call_transform :: "'w env \<Rightarrow> real list \<Rightarrow> error + real" where
  "call_transform env [s, s_min, s_max] = Inr (transform env s s_min s_max)"
| "call_transform env args = Inl TypeError"

section \<open>The loop's state\<close>

record 'w state =
  st_X :: "real list list"
  st_y :: "real list"
  st_c :: "real list"
  incumbents :: "real list list"
  time_func_eval :: "real list"
  time_overhead :: "real list"
  runtime :: "real list"
  trace :: "event list"
  world :: 'w

record results =
  x_opt :: "real list"
  trajectory :: "real list list"
  result_runtime :: "real list"
  overhead :: "real list"
  result_time_func_eval :: "real list"

definition initial_state :: "'w \<Rightarrow> 'w state" where
  "initial_state w =
     \<lparr>st_X = [], st_y = [], st_c = [], incumbents = [], time_func_eval = [],
      time_overhead = [], runtime = [], trace = [], world = w\<rparr>"

definition time_time :: "'w env \<Rightarrow> 'w state \<Rightarrow> real \<times> 'w state" where
  "time_time env st = (let (t, w) = clock env (world st) in (t, st\<lparr>world := w\<rparr>))"

definition collaborate :: "'w env \<Rightarrow> event \<Rightarrow> 'w state \<Rightarrow> 'w state" where
  "collaborate env ev st = st\<lparr>trace := trace st @ [ev], world := effect env ev (world st)\<rparr>"

definition draw_configuration ::
  "'w env \<Rightarrow> real list \<Rightarrow> real list \<Rightarrow> 'w state \<Rightarrow> real list \<times> 'w state" where
  "draw_configuration env lower upper st =
     (let (x, w) = init_random_uniform env lower upper (world st) in (x, st\<lparr>world := w\<rparr>))"

definition evaluate ::
  "'w env \<Rightarrow> real list \<Rightarrow> real \<Rightarrow> 'w state \<Rightarrow> (real \<times> real) \<times> 'w state" where
  "evaluate env x s st =
     (let (r, w) = objective_function env x s (world st)
      in (r, st\<lparr>trace := trace st @ [Objective_called x s], world := w\<rparr>))"

definition estimate_incumbent ::
  "'w env \<Rightarrow> real list list \<Rightarrow> real \<Rightarrow> 'w state \<Rightarrow> (real list \<times> real) \<times> 'w state" where
  "estimate_incumbent env configurations proj_value st =
     (let (r, w) = projected_incumbent_estimation env configurations proj_value (world st)
      in (r, st\<lparr>trace := trace st @ [Incumbent_projected configurations proj_value],
                world := w\<rparr>))"

definition maximizer_maximize :: "'w env \<Rightarrow> 'w state \<Rightarrow> real list \<times> 'w state" where
  "maximizer_maximize env st =
     (let (new_x, w) = maximize env (world st)
      in (new_x, st\<lparr>trace := trace st @ [Maximizer_called], world := w\<rparr>))"

text \<open>A \<^verbatim>\<open>for\<close> loop over a list of indices; an exception in the body ends it.\<close>

fun for_each ::
  "('i \<Rightarrow> 's \<Rightarrow> (error + unit) \<times> 's) \<Rightarrow> 'i list \<Rightarrow> 's \<Rightarrow> (error + unit) \<times> 's" where
  "for_each body [] st = (Inr (), st)"
| "for_each body (i # rest) st =
     (case body i st of
        (Inl e, st') \<Rightarrow> (Inl e, st')
      | (Inr u, st') \<Rightarrow> for_each body rest st')"

section \<open>Construction of the models (lines 81 to 171)\<close>

definition build_models ::
  "'w env \<Rightarrow> real list \<Rightarrow> real list \<Rightarrow> int \<Rightarrow> int \<Rightarrow> 'w state \<Rightarrow> (error + unit) \<times> 'w state"
  where
  "build_models env lower upper burnin chain_length st =
     (let n_dims = length lower;
          kernel = ard_kernel n_dims
      in case py_len (kernel_len env) kernel of
           Inl e \<Rightarrow> (Inl e, st)
         | Inr len_kernel \<Rightarrow>
             (let n_hypers = (if (3 * len_kernel) mod 2 = 1 then 3 * len_kernel + 1
                              else 3 * len_kernel);
                  prior = EnvPrior (len_kernel + 1) n_dims 2;
                  st1 = collaborate env
                          (Model_created Model_objective kernel prior burnin chain_length
                             Quadratic_bf n_hypers lower upper) st;
                  cost_kernel = Product (ard_kernel n_dims)
                                  (BayesianLinearRegressionKernel (n_dims + 1) n_dims 1)
              in case py_len (kernel_len env) cost_kernel of
                   Inl e \<Rightarrow> (Inl e, st1)
                 | Inr len_cost_kernel \<Rightarrow>
                     (let cost_prior = EnvPrior (len_cost_kernel + 1) n_dims 2;
                          st2 = collaborate env
                                  (Model_created Model_cost cost_kernel cost_prior burnin
                                     chain_length Linear_bf n_hypers lower upper) st1;
                          extend_lower = lower @ [0];
                          extend_upper = upper @ [1];
                          is_env = (replicate (length extend_lower) 0)
                                     [length extend_lower - 1 := 1];
                          st3 = collaborate env
                                  (Acquisition_created extend_lower extend_upper is_env 10) st2;
                          st4 = collaborate env Marginalization_created st3;
                          st5 = collaborate env
                                  (Maximizer_created extend_lower extend_upper) st4
                      in (Inr (), st5))))"

section \<open>Initial design (lines 173 to 196)\<close>

definition subsets :: "nat list" where
  "subsets = [256, 128, 64, 32]"

definition initial_fidelity :: "real \<Rightarrow> int \<Rightarrow> int" where
  "initial_fidelity s_max i =
     py_int (s_max / real (subsets ! nat (i mod int (length subsets))))"

text \<open>
  Lines 186 to 196, the bookkeeping of a round once \<^verbatim>\<open>s_transformed\<close> is known.
  \<^verbatim>\<open>X[best_idx]\<close> is a row of the store, that is an augmented point.
\<close>

definition init_bookkeeping ::
  "'w env \<Rightarrow> real \<Rightarrow> real \<Rightarrow> real \<Rightarrow> real list \<Rightarrow> real \<Rightarrow> real \<Rightarrow> real \<Rightarrow> 'w state
     \<Rightarrow> (error + unit) \<times> 'w state" where
  "init_bookkeeping env s_max time_start start_time_overhead x func_val cost s_transformed st =
     (let config = x @ [s_transformed];
          st1 = st\<lparr>st_X := st_X st @ [config], st_y := st_y st @ [func_val],
                    st_c := st_c st @ [cost]\<rparr>
      in case np_argmin (st_y st1) of
           Inl e \<Rightarrow> (Inl e, st1)
         | Inr best_idx \<Rightarrow>
             if \<not> best_idx < length (st_X st1) then (Inl IndexError, st1)
             else
               (let st2 = st1\<lparr>incumbents := incumbents st1 @ [(st_X st1 ! best_idx) @ [s_max]]\<rparr>;
                    (t1, st3) = time_time env st2;
                    st4 = st3\<lparr>time_overhead := time_overhead st3 @ [t1 - start_time_overhead]\<rparr>;
                    (t2, st5) = time_time env st4
                in (Inr (), st5\<lparr>runtime := runtime st5 @ [t2 - time_start]\<rparr>)))"

definition init_round ::
  "'w env \<Rightarrow> real list \<Rightarrow> real list \<Rightarrow> real \<Rightarrow> real \<Rightarrow> int \<Rightarrow> 'w state
     \<Rightarrow> (error + unit) \<times> 'w state" where
  "init_round env lower upper s_max time_start i st =
     (let (start_time_overhead, st1) = time_time env st;
          s = initial_fidelity s_max i;
          (x, st2) = draw_configuration env lower upper st1;
          (t0, st3) = time_time env st2;
          ((func_val, cost), st4) = evaluate env x (of_int s) st3;
          (t1, st5) = time_time env st4;
          st6 = st5\<lparr>time_func_eval := time_func_eval st5 @ [t1 - t0]\<rparr>
      in case call_transform env [of_int s] of
           Inl e \<Rightarrow> (Inl e, st6)
         | Inr s_transformed \<Rightarrow>
             init_bookkeeping env s_max time_start start_time_overhead x func_val cost
               s_transformed st6)"

section \<open>Model-guided search (lines 202 to 240)\<close>

definition guided_round ::
  "'w env \<Rightarrow> real \<Rightarrow> real \<Rightarrow> real \<Rightarrow> int \<Rightarrow> 'w state \<Rightarrow> (error + unit) \<times> 'w state" where
  "guided_round env s_min s_max time_start it st =
     (let (start_time, st1) = time_time env st;
          st2 = collaborate env
                  (Model_trained Model_objective (st_X st1) (st_y st1) (Some True)) st1;
          st3 = collaborate env
                  (Model_trained Model_cost (st_X st2) (st_c st2) (Some True)) st2
      in case drop_last_column (st_X st3) of
           Inl e \<Rightarrow> (Inl e, st3)
         | Inr configurations \<Rightarrow>
             (let ((incumbent, incumbent_value), st4) =
                    estimate_incumbent env configurations s_max st3;
                  st5 = st4\<lparr>incumbents := incumbents st4 @ [incumbent]\<rparr>;
                  st6 = collaborate env Acquisition_updated st5;
                  (new_x, st7) = maximizer_maximize env st6
              in if new_x = [] then (Inl IndexError, st7)
                 else
                   (let s = retransform env (last new_x) s_min s_max;
                        (t1, st8) = time_time env st7;
                        st9 = st8\<lparr>time_overhead := time_overhead st8 @ [t1 - start_time]\<rparr>;
                        (t2, st10) = time_time env st9;
                        ((new_y, new_c), st11) = evaluate env (butlast new_x) s st10;
                        (t3, st12) = time_time env st11;
                        st13 = st12\<lparr>time_func_eval := time_func_eval st12 @ [t3 - t2]\<rparr>
                    in case np_concatenate_row (st_X st13) new_x of
                         Inl e \<Rightarrow> (Inl e, st13)
                       | Inr X' \<Rightarrow>
                           (let st14 = st13\<lparr>st_X := X', st_y := st_y st13 @ [new_y],
                                            st_c := st_c st13 @ [new_c]\<rparr>;
                                (t4, st15) = time_time env st14
                            in (Inr (), st15\<lparr>runtime := runtime st15 @ [t4 - time_start]\<rparr>)))))"

section \<open>Finalization (lines 242 to 256)\<close>

definition finalization ::
  "'w env \<Rightarrow> real \<Rightarrow> 'w state \<Rightarrow> (error + results) \<times> 'w state" where
  "finalization env s_max st =
     (let st1 = collaborate env (Model_trained Model_objective (st_X st) (st_y st) None) st
      in case drop_last_column (st_X st1) of
           Inl e \<Rightarrow> (Inl e, st1)
         | Inr configurations \<Rightarrow>
             (let ((projected, incumbent_value), st2) =
                    estimate_incumbent env configurations 1 st1
              in if projected = [] then (Inl IndexError, st2)
                 else
                   (let incumbent = projected[length projected - 1 := s_max];
                        st3 = st2\<lparr>incumbents := incumbents st2 @ [incumbent]\<rparr>
                    in (Inr \<lparr>x_opt = butlast incumbent,
                              trajectory = incumbents st3,
                              result_runtime = runtime st3,
                              overhead = time_overhead st3,
                              result_time_func_eval = time_func_eval st3\<rparr>, st3))))"

section \<open>The entry point\<close>

definition fabolas ::
  "'w env \<Rightarrow> real list \<Rightarrow> real list \<Rightarrow> real \<Rightarrow> real \<Rightarrow> int \<Rightarrow> int \<Rightarrow> int \<Rightarrow> int \<Rightarrow> 'w
     \<Rightarrow> (error + results) \<times> 'w state" where
  "fabolas env lower upper s_min s_max n_init num_iterations burnin chain_length w =
     (let st0 = initial_state w
      in if \<not> n_init \<le> num_iterations then (Inl AssertionError, st0)
         else if \<not> length lower = length upper then (Inl AssertionError, st0)
         else
           (let (time_start, st1) = time_time env st0
            in case build_models env lower upper burnin chain_length st1 of
                 (Inl e, st2) \<Rightarrow> (Inl e, st2)
               | (Inr u, st2) \<Rightarrow>
                   (case for_each (init_round env lower upper s_max time_start)
                           (py_range 0 n_init) st2 of
                      (Inl e, st3) \<Rightarrow> (Inl e, st3)
                    | (Inr u, st3) \<Rightarrow>
                        (case for_each (guided_round env s_min s_max time_start)
                                (py_range n_init num_iterations) st3 of
                           (Inl e, st4) \<Rightarrow> (Inl e, st4)
                         | (Inr u, st4) \<Rightarrow> finalization env s_max st4))))"

section \<open>Rounds\<close>

text \<open>
  The two \<^verbatim>\<open>for\<close> loops seen as one sequence of rounds: round \<open>k\<close> is an
  initial-design round when \<open>k < n_init\<close> and a model-guided round otherwise.
\<close>

definition fabolas_round ::
  "'w env \<Rightarrow> real list \<Rightarrow> real list \<Rightarrow> real \<Rightarrow> real \<Rightarrow> int \<Rightarrow> real \<Rightarrow> int \<Rightarrow> 'w state
     \<Rightarrow> (error + unit) \<times> 'w state" where
  "fabolas_round env lower upper s_min s_max n_init time_start k st =
     (if k < n_init then init_round env lower upper s_max time_start k st
      else guided_round env s_min s_max time_start k st)"

text \<open>
  A store in which \<open>n\<close> rounds are recorded: \<open>X\<close>, \<open>y\<close>, \<open>c\<close> and the incumbent
  trajectory each hold \<open>n\<close> entries.
\<close>

definition aligned :: "'w state \<Rightarrow> nat \<Rightarrow> bool" where
  "aligned st n =
     (length (st_X st) = n \<and> length (st_y st) = n \<and> length (st_c st) = n
      \<and> length (incumbents st) = n)"

section \<open>Reading the trace\<close>

text \<open>The objective-function calls and the incumbent-projection calls of a trace, in order.\<close>

fun objective_calls :: "event list \<Rightarrow> (real list \<times> real) list" where
  "objective_calls [] = []"
| "objective_calls (Objective_called x s # tr) = (x, s) # objective_calls tr"
| "objective_calls (ev # tr) = objective_calls tr"

fun projection_calls :: "event list \<Rightarrow> (real list list \<times> real) list" where
  "projection_calls [] = []"
| "projection_calls (Incumbent_projected cfgs v # tr) = (cfgs, v) # projection_calls tr"
| "projection_calls (ev # tr) = projection_calls tr"

section \<open>A concrete environment\<close>

text \<open>
  A small deterministic set of collaborators, used to run the definitions on concrete
  inputs: numpy computes without rounding error, the world counts the calls made, the clock reads that count, the drawn
  configuration is the lower bound, the objective returns the sum of the configuration as
  value and the fidelity as cost, the projection returns the first configuration at the
  projected fidelity, and the maximizer always proposes \<open>[1/2, 1/4]\<close>.
\<close>

definition demo_env :: "nat env" where
  "demo_env =
     \<lparr>np_log = ln,
      np_exp = exp,
      float64 = (\<lambda>v. v),
      kernel_len = (\<lambda>k. 3),
      effect = (\<lambda>ev w. Suc w),
      clock = (\<lambda>w. (real w, Suc w)),
      init_random_uniform = (\<lambda>lower upper w. (lower, Suc w)),
      objective_function = (\<lambda>x s w. ((sum_list x, s), Suc w)),
      projected_incumbent_estimation = (\<lambda>cfgs proj w. ((hd cfgs @ [proj], 0), Suc w)),
      maximize = (\<lambda>w. ([1 / 2, 1 / 4], Suc w))\<rparr>"

text \<open>
  A state after one recorded round in one configuration dimension: one augmented point,
  its value and cost, and one incumbent.
\<close>

definition demo_state :: "nat state" where
  "demo_state =
     \<lparr>st_X = [[0, 0]], st_y = [3], st_c = [1], incumbents = [[0, 0, 256]],
      time_func_eval = [1], time_overhead = [1], runtime = [2], trace = [], world = 0\<rparr>"

section \<open>The collaborator calls and the blocks of the loop\<close>

lemma objective_calls_append:
  "objective_calls (tr @ tr') = objective_calls tr @ objective_calls tr'"
  by (induction tr rule: objective_calls.induct) simp_all

lemma projection_calls_append:
  "projection_calls (tr @ tr') = projection_calls tr @ projection_calls tr'"
  by (induction tr rule: projection_calls.induct) simp_all

lemma snd_time_time:
  "snd (time_time env st) = st\<lparr>world := snd (clock env (world st))\<rparr>"
  by (simp add: time_time_def split_def Let_def)

lemma snd_draw_configuration:
  "snd (draw_configuration env lower upper st)
   = st\<lparr>world := snd (init_random_uniform env lower upper (world st))\<rparr>"
  by (simp add: draw_configuration_def split_def Let_def)

lemma snd_evaluate:
  "snd (evaluate env x s st)
   = st\<lparr>trace := trace st @ [Objective_called x s],
        world := snd (objective_function env x s (world st))\<rparr>"
  by (simp add: evaluate_def split_def Let_def)

lemma snd_estimate_incumbent:
  "snd (estimate_incumbent env cfgs v st)
   = st\<lparr>trace := trace st @ [Incumbent_projected cfgs v],
        world := snd (projected_incumbent_estimation env cfgs v (world st))\<rparr>"
  by (simp add: estimate_incumbent_def split_def Let_def)

lemma snd_maximizer_maximize:
  "snd (maximizer_maximize env st)
   = st\<lparr>trace := trace st @ [Maximizer_called], world := snd (maximize env (world st))\<rparr>"
  by (simp add: maximizer_maximize_def split_def Let_def)

lemmas snd_calls = snd_time_time snd_draw_configuration snd_evaluate snd_estimate_incumbent
  snd_maximizer_maximize

lemma init_round_aborts:
  "fst (init_round env lower upper s_max time_start i st) = Inl TypeError"
  by (simp add: init_round_def split_def Let_def)

lemma init_round_store:
  "st_X (snd (init_round env lower upper s_max time_start i st)) = st_X st"
  "st_y (snd (init_round env lower upper s_max time_start i st)) = st_y st"
  "st_c (snd (init_round env lower upper s_max time_start i st)) = st_c st"
  "incumbents (snd (init_round env lower upper s_max time_start i st)) = incumbents st"
  by (simp_all add: init_round_def split_def Let_def snd_calls)

lemma init_round_trace:
  "trace (snd (init_round env lower upper s_max time_start i st))
   = trace st @ [Objective_called
        (fst (draw_configuration env lower upper (snd (time_time env st))))
        (of_int (initial_fidelity s_max i))]"
  by (simp add: init_round_def split_def Let_def snd_calls)

lemma ard_kernel_Suc:
  "ard_kernel (Suc n)
   = Product (fold (\<lambda>d k. Product k (Matern52Kernel (Suc n + 1) d)) [0..<n] (PyInt 1))
       (Matern52Kernel (Suc n + 1) n)"
  by (simp add: ard_kernel_def)

lemma py_len_ard_kernel:
  "0 < n \<Longrightarrow> py_len g (ard_kernel n) = Inr (g (ard_kernel n))"
  by (cases n) (simp_all add: ard_kernel_Suc del: fold_simps)

lemma build_models_ok:
  assumes "lower \<noteq> []"
  shows "fst (build_models env lower upper burnin chain_length st) = Inr ()"
    and "st_X (snd (build_models env lower upper burnin chain_length st)) = st_X st"
    and "st_y (snd (build_models env lower upper burnin chain_length st)) = st_y st"
    and "st_c (snd (build_models env lower upper burnin chain_length st)) = st_c st"
    and "incumbents (snd (build_models env lower upper burnin chain_length st)) = incumbents st"
    and "objective_calls (trace (snd (build_models env lower upper burnin chain_length st)))
         = objective_calls (trace st)"
  using assms
  by (simp_all add: build_models_def Let_def py_len_ard_kernel collaborate_def
      objective_calls_append)

lemma py_range_first: "a < b \<Longrightarrow> py_range a b = a # py_range (a + 1) b"
  by (simp add: py_range_def upto_rec1)

lemma for_each_abort:
  "fst (body i st) = Inl e \<Longrightarrow> for_each body (i # rest) st = (Inl e, snd (body i st))"
  by (cases "body i st") simp

lemma guided_round_completed:
  assumes "fst (guided_round env s_min s_max t0 it st) = Inr ()"
  shows "length (st_X (snd (guided_round env s_min s_max t0 it st))) = Suc (length (st_X st))"
    and "length (st_y (snd (guided_round env s_min s_max t0 it st))) = Suc (length (st_y st))"
    and "length (st_c (snd (guided_round env s_min s_max t0 it st))) = Suc (length (st_c st))"
    and "length (incumbents (snd (guided_round env s_min s_max t0 it st)))
         = Suc (length (incumbents st))"
  using assms
  by (simp_all add: guided_round_def split_def Let_def snd_calls collaborate_def
      drop_last_column_def np_concatenate_row_def split: if_splits)

lemma set_last_entry: "xs \<noteq> [] \<Longrightarrow> xs[length xs - Suc 0 := v] = butlast xs @ [v]"
  by (induction xs rule: rev_induct) simp_all

lemma finalization_completed:
  assumes "fst (finalization env s_max st) = Inr res"
  shows "st_X (snd (finalization env s_max st)) = st_X st"
    and "st_y (snd (finalization env s_max st)) = st_y st"
    and "st_c (snd (finalization env s_max st)) = st_c st"
    and "incumbents (snd (finalization env s_max st))
         = incumbents st @ [butlast (fst (fst (estimate_incumbent env (map butlast (st_X st)) 1
             (collaborate env (Model_trained Model_objective (st_X st) (st_y st) None) st))))
             @ [s_max]]"
    and "trajectory res = incumbents (snd (finalization env s_max st))"
    and "x_opt res = butlast (fst (fst (estimate_incumbent env (map butlast (st_X st)) 1
             (collaborate env (Model_trained Model_objective (st_X st) (st_y st) None) st))))"
  using assms
  by (auto simp add: finalization_def split_def Let_def snd_calls collaborate_def
      drop_last_column_def set_last_entry split: if_splits)

section \<open>The run as a whole\<close>

text \<open>
  C4. If \<open>n_init > num_iterations\<close>, or \<open>lower\<close> and \<open>upper\<close> differ in length, the run
  raises \<^verbatim>\<open>AssertionError\<close> at once: the trace of collaborator calls is empty (no
  objective call, no model created or trained) and the collaborators' world is untouched.
\<close>

theorem precondition_violation_fails_first:
  assumes "num_iterations < n_init \<or> length lower \<noteq> length upper"
  shows "fst (fabolas env lower upper s_min s_max n_init num_iterations burnin chain_length w)
           = Inl AssertionError
       \<and> trace (snd (fabolas env lower upper s_min s_max n_init num_iterations burnin
                        chain_length w)) = []
       \<and> world (snd (fabolas env lower upper s_min s_max n_init num_iterations burnin
                        chain_length w)) = w"
  using assms by (auto simp add: fabolas_def initial_state_def Let_def)

theorem precondition_violation_fails_first_witness:
  "((3::int) < 5 \<or> length [0, 0 :: real] \<noteq> length [1, 1 :: real])
   \<and> fst (fabolas demo_env [0, 0] [1, 1] 1 256 5 3 100 200 0) = Inl AssertionError
   \<and> trace (snd (fabolas demo_env [0, 0] [1, 1] 1 256 5 3 100 200 0)) = []
   \<and> world (snd (fabolas demo_env [0, 0] [1, 1] 1 256 5 3 100 200 0)) = 0
   \<and> fst (fabolas demo_env [0, 0, 0] [1, 1] 1 256 2 3 100 200 0) = Inl AssertionError
   \<and> trace (snd (fabolas demo_env [0, 0, 0] [1, 1] 1 256 2 3 100 200 0)) = []"
  using precondition_violation_fails_first [of 3 5 "[0, 0]" "[1, 1]" demo_env 1 256 100 200 0]
    precondition_violation_fails_first [of 3 2 "[0, 0, 0]" "[1, 1]" demo_env 1 256 100 200 0]
  by simp

text \<open>
  C2, amended. For every run with \<open>n_init \<ge> 1\<close> that passes the precondition checks and
  has at least one configuration dimension, the first initial-design round calls the
  objective function once and then raises \<^verbatim>\<open>TypeError\<close> at the one-argument call
  \<^verbatim>\<open>transform(s)\<close>; the run ends there with \<open>X\<close>, \<open>y\<close>, \<open>c\<close> and the trajectory
  empty.
\<close>

theorem first_initial_round_raises:
  assumes "1 \<le> n_init" and "n_init \<le> num_iterations"
    and "length lower = length upper" and "lower \<noteq> []"
  shows "fst (fabolas env lower upper s_min s_max n_init num_iterations burnin chain_length w)
           = Inl TypeError
       \<and> call_transform env [of_int (initial_fidelity s_max 0)] = Inl TypeError
       \<and> length (objective_calls (trace (snd (fabolas env lower upper s_min s_max n_init
                   num_iterations burnin chain_length w)))) = 1
       \<and> st_X (snd (fabolas env lower upper s_min s_max n_init num_iterations burnin
                       chain_length w)) = []
       \<and> st_y (snd (fabolas env lower upper s_min s_max n_init num_iterations burnin
                       chain_length w)) = []
       \<and> st_c (snd (fabolas env lower upper s_min s_max n_init num_iterations burnin
                       chain_length w)) = []
       \<and> incumbents (snd (fabolas env lower upper s_min s_max n_init num_iterations burnin
                       chain_length w)) = []"
proof -
  let ?t0 = "fst (time_time env (initial_state w))"
  let ?st1 = "snd (time_time env (initial_state w))"
  obtain st2 where built: "build_models env lower upper burnin chain_length ?st1 = (Inr (), st2)"
    using build_models_ok(1) [OF assms(4), of env upper burnin chain_length ?st1]
    by (cases "build_models env lower upper burnin chain_length ?st1") simp
  then have st2: "st2 = snd (build_models env lower upper burnin chain_length ?st1)"
    by simp
  let ?st3 = "snd (init_round env lower upper s_max ?t0 0 st2)"
  have "py_range 0 n_init = 0 # py_range 1 n_init"
    using assms(1) py_range_first [of 0 n_init] by simp
  then have loop: "for_each (init_round env lower upper s_max ?t0) (py_range 0 n_init) st2
                   = (Inl TypeError, ?st3)"
    using for_each_abort [of "init_round env lower upper s_max ?t0" 0 st2 TypeError
        "py_range 1 n_init"] init_round_aborts [of env lower upper s_max ?t0 0 st2]
    by simp
  have run: "fabolas env lower upper s_min s_max n_init num_iterations burnin chain_length w
             = (Inl TypeError, ?st3)"
    using assms(2,3) by (simp add: fabolas_def Let_def split_def built loop)
  have empty: "st_X ?st1 = []" "st_y ?st1 = []" "st_c ?st1 = []" "incumbents ?st1 = []"
    "trace ?st1 = []"
    by (simp_all add: snd_time_time initial_state_def)
  show ?thesis
    unfolding run
    by (simp add: init_round_store init_round_trace objective_calls_append st2
        build_models_ok [OF assms(4)] empty)
qed

text \<open>Unfolding everything, to run the definitions on concrete inputs.\<close>

lemmas run_defs = fabolas_def initial_state_def time_time_def build_models_def ard_kernel_def
  collaborate_def py_range_def init_round_def draw_configuration_def evaluate_def
  initial_fidelity_def subsets_def py_int_def guided_round_def drop_last_column_def
  finalization_def estimate_incumbent_def maximizer_maximize_def np_concatenate_row_def
  Let_def

lemmas demo_defs = demo_env_def demo_state_def

section \<open>Rounds and finalization\<close>

lemma fabolas_round_completed:
  assumes "aligned st n"
    and "fst (fabolas_round env lower upper s_min s_max n_init t0 k st) = Inr ()"
  shows "aligned (snd (fabolas_round env lower upper s_min s_max n_init t0 k st)) (Suc n)"
proof (cases "k < n_init")
  case True
  with assms(2) show ?thesis
    by (simp add: fabolas_round_def init_round_aborts)
next
  case False
  with assms(2) have "fst (guided_round env s_min s_max t0 k st) = Inr ()"
    by (simp add: fabolas_round_def)
  from guided_round_completed [OF this] assms(1) False show ?thesis
    by (simp add: fabolas_round_def aligned_def)
qed

lemma rounds_completed:
  assumes "aligned st n"
    and "fst (for_each (fabolas_round env lower upper s_min s_max n_init t0) ks st) = Inr ()"
  shows "aligned (snd (for_each (fabolas_round env lower upper s_min s_max n_init t0) ks st))
           (n + length ks)"
  using assms
proof (induction ks arbitrary: st n)
  case Nil
  then show ?case
    by simp
next
  case (Cons k ks)
  obtain r st' where step: "fabolas_round env lower upper s_min s_max n_init t0 k st = (r, st')"
    by (cases "fabolas_round env lower upper s_min s_max n_init t0 k st")
  with Cons.prems(2) have r: "r = Inr ()"
    by (cases r) simp_all
  with step Cons.prems(1) have "aligned st' (Suc n)"
    using fabolas_round_completed [of st n env lower upper s_min s_max n_init t0 k] by simp
  moreover from Cons.prems(2) step r
  have "fst (for_each (fabolas_round env lower upper s_min s_max n_init t0) ks st') = Inr ()"
    by simp
  ultimately
  have "aligned (snd (for_each (fabolas_round env lower upper s_min s_max n_init t0) ks st'))
          (Suc n + length ks)"
    by (rule Cons.IH)
  with step r show ?case
    by simp
qed

text \<open>
  Rounds that complete are counted: for any sequence \<open>ks\<close> of rounds run from a state with
  \<open>n\<close> rounds recorded, if all of them complete then \<open>n + length ks\<close> rounds are recorded,
  and a finalization that completes leaves the store as it is and adds one trajectory entry.
  Only model-guided rounds can complete.
\<close>

lemma completed_rounds_counted:
  assumes "aligned st n"
  shows "(fst (for_each (fabolas_round env lower upper s_min s_max n_init t0) ks st) = Inr ()
            \<longrightarrow> aligned (snd (for_each (fabolas_round env lower upper s_min s_max n_init t0)
                                  ks st)) (n + length ks))
       \<and> (fst (finalization env s_max st) = Inr res
            \<longrightarrow> length (st_X (snd (finalization env s_max st))) = n
              \<and> length (st_y (snd (finalization env s_max st))) = n
              \<and> length (st_c (snd (finalization env s_max st))) = n
              \<and> length (incumbents (snd (finalization env s_max st))) = Suc n
              \<and> length (trajectory res) = Suc n)"
proof (intro conjI impI)
  assume "fst (for_each (fabolas_round env lower upper s_min s_max n_init t0) ks st) = Inr ()"
  with assms
  show "aligned (snd (for_each (fabolas_round env lower upper s_min s_max n_init t0) ks st))
          (n + length ks)"
    by (rule rounds_completed)
next
  assume "fst (finalization env s_max st) = Inr res"
  from finalization_completed [OF this] assms
  show "length (st_X (snd (finalization env s_max st))) = n"
    and "length (st_y (snd (finalization env s_max st))) = n"
    and "length (st_c (snd (finalization env s_max st))) = n"
    and "length (incumbents (snd (finalization env s_max st))) = Suc n"
    and "length (trajectory res) = Suc n"
    by (simp_all add: aligned_def)
qed

lemma completed_rounds_counted_example:
  "aligned demo_state 1
   \<and> fst (for_each (fabolas_round demo_env [0] [1] 1 256 1 0) [1, 2] demo_state) = Inr ()
   \<and> aligned (snd (for_each (fabolas_round demo_env [0] [1] 1 256 1 0) [1, 2] demo_state)) 3
   \<and> fst (finalization demo_env 256 demo_state)
       = Inr \<lparr>x_opt = [0], trajectory = [[0, 0, 256], [0, 256]], result_runtime = [2],
              overhead = [1], result_time_func_eval = [1]\<rparr>
   \<and> length (st_X (snd (finalization demo_env 256 demo_state))) = 1
   \<and> length (incumbents (snd (finalization demo_env 256 demo_state))) = 2"
proof -
  have a: "aligned demo_state 1"
    by (simp add: aligned_def demo_state_def)
  have r: "fst (for_each (fabolas_round demo_env [0] [1] 1 256 1 0) [1, 2] demo_state) = Inr ()"
    by (simp add: fabolas_round_def run_defs demo_defs)
  have f: "fst (finalization demo_env 256 demo_state)
       = Inr \<lparr>x_opt = [0], trajectory = [[0, 0, 256], [0, 256]], result_runtime = [2],
              overhead = [1], result_time_func_eval = [1]\<rparr>"
    by (simp add: run_defs demo_defs)
  from completed_rounds_counted [OF a, of demo_env "[0]" "[1]" 1 256 1 0 "[1, 2]"
      "\<lparr>x_opt = [0], trajectory = [[0, 0, 256], [0, 256]], result_runtime = [2],
              overhead = [1], result_time_func_eval = [1]\<rparr>"] a r f
  show ?thesis
    by (simp add: numeral_eq_Suc)
qed

text \<open>
  C5. After every round, initial or guided, \<open>X\<close>, \<open>y\<close> and \<open>c\<close> should have equal
  lengths, equal to the number of rounds run so far, each round appending one record to each
  and one entry to the trajectory. An initial-design round as written calls the objective
  function and raises \<^verbatim>\<open>TypeError\<close>: a sequence of rounds that starts with one ends
  there, with the store and the trajectory still holding the \<open>n\<close> entries they held before,
  so no initial-design round is ever recorded.
\<close>

theorem initial_round_records_no_round:
  assumes "aligned st n" and "k < n_init"
  shows "fst (for_each (fabolas_round env lower upper s_min s_max n_init t0) (k # ks) st)
           = Inl TypeError
       \<and> aligned (snd (for_each (fabolas_round env lower upper s_min s_max n_init t0)
                          (k # ks) st)) n
       \<and> length (objective_calls (trace (snd (for_each
             (fabolas_round env lower upper s_min s_max n_init t0) (k # ks) st))))
           = Suc (length (objective_calls (trace st)))"
proof -
  have round: "fabolas_round env lower upper s_min s_max n_init t0 k st
               = init_round env lower upper s_max t0 k st"
    using assms(2) by (simp add: fabolas_round_def)
  then have "fst (fabolas_round env lower upper s_min s_max n_init t0 k st) = Inl TypeError"
    by (simp add: init_round_aborts)
  then have "for_each (fabolas_round env lower upper s_min s_max n_init t0) (k # ks) st
             = (Inl TypeError, snd (init_round env lower upper s_max t0 k st))"
    using for_each_abort [of "fabolas_round env lower upper s_min s_max n_init t0" k st
        TypeError ks] round
    by simp
  with assms(1) show ?thesis
    by (simp add: aligned_def init_round_store init_round_trace objective_calls_append)
qed

theorem initial_round_records_no_round_witness:
  "aligned (initial_state (0::nat)) 0 \<and> (0::int) < 2
   \<and> fst (for_each (fabolas_round demo_env [0] [1] 1 256 2 0) [0, 1, 2] (initial_state 0))
       = Inl TypeError
   \<and> aligned (snd (for_each (fabolas_round demo_env [0] [1] 1 256 2 0) [0, 1, 2]
                      (initial_state 0))) 0
   \<and> length (objective_calls (trace (snd (for_each (fabolas_round demo_env [0] [1] 1 256 2 0)
         [0, 1, 2] (initial_state 0))))) = 1"
proof -
  have a: "aligned (initial_state (0::nat)) 0"
    by (simp add: aligned_def initial_state_def)
  have k: "(0::int) < 2"
    by simp
  from initial_round_records_no_round [OF a k, of demo_env "[0]" "[1]" 1 256 0 "[1, 2]"] a
  show ?thesis
    by (simp add: initial_state_def)
qed

text \<open>
  C6. The final incumbent appended at finalization is the projection's answer with its last
  coordinate replaced by \<open>s_max\<close>, whatever fidelity the projection returned there, and
  \<open>x_opt\<close> is that incumbent without its last coordinate.
\<close>

theorem final_incumbent_at_s_max:
  assumes "fst (finalization env s_max st) = Inr res"
  shows "trajectory res = incumbents st @ [butlast (fst (fst (estimate_incumbent env
             (map butlast (st_X st)) 1
             (collaborate env (Model_trained Model_objective (st_X st) (st_y st) None) st))))
           @ [s_max]]
       \<and> last (last (trajectory res)) = s_max
       \<and> x_opt res = butlast (last (trajectory res))"
  using finalization_completed(4,5,6) [OF assms] by simp

theorem final_incumbent_at_s_max_witness:
  "fst (finalization demo_env 256 demo_state)
     = Inr \<lparr>x_opt = [0], trajectory = [[0, 0, 256], [0, 256]], result_runtime = [2],
            overhead = [1], result_time_func_eval = [1]\<rparr>
   \<and> fst (fst (estimate_incumbent demo_env (map butlast (st_X demo_state)) 1
        (collaborate demo_env
           (Model_trained Model_objective (st_X demo_state) (st_y demo_state) None)
           demo_state))) = [0, 1]
   \<and> last (last (trajectory \<lparr>x_opt = [0], trajectory = [[0, 0, 256], [0, 256]],
        result_runtime = [2], overhead = [1], result_time_func_eval = [1]\<rparr>)) = (256::real)"
proof -
  have f: "fst (finalization demo_env 256 demo_state)
       = Inr \<lparr>x_opt = [0], trajectory = [[0, 0, 256], [0, 256]], result_runtime = [2],
              overhead = [1], result_time_func_eval = [1]\<rparr>"
    by (simp add: run_defs demo_defs)
  have p: "fst (fst (estimate_incumbent demo_env (map butlast (st_X demo_state)) 1
        (collaborate demo_env
           (Model_trained Model_objective (st_X demo_state) (st_y demo_state) None)
           demo_state))) = [0, 1]"
    by (simp add: run_defs demo_defs)
  from final_incumbent_at_s_max [OF f] f p show ?thesis
    by simp
qed

text \<open>
  C10, amended. A model-guided round started with a non-empty store calls the
  incumbent-projection estimator once, with projected-fidelity value \<open>s_max\<close>; finalization
  on a non-empty store calls it once with projected-fidelity value \<open>1\<close>. Both pass the
  observed configurations with the fidelity column dropped, so the two calls differ exactly
  when \<open>s_max \<noteq> 1\<close>.
\<close>

theorem projection_value_by_phase:
  assumes "st_X st \<noteq> []"
  shows "projection_calls (trace (snd (guided_round env s_min s_max t0 it st)))
           = projection_calls (trace st) @ [(map butlast (st_X st), s_max)]
       \<and> projection_calls (trace (snd (finalization env s_max st)))
           = projection_calls (trace st) @ [(map butlast (st_X st), 1)]"
  using assms
  by (simp add: guided_round_def finalization_def split_def Let_def snd_calls collaborate_def
      drop_last_column_def np_concatenate_row_def projection_calls_append)

theorem projection_value_by_phase_witness:
  "st_X demo_state \<noteq> []
   \<and> projection_calls (trace (snd (guided_round demo_env 1 256 0 1 demo_state)))
       = [([[0]], 256)]
   \<and> projection_calls (trace (snd (finalization demo_env 256 demo_state))) = [([[0]], 1)]"
proof -
  have h: "st_X demo_state \<noteq> []"
    by (simp add: demo_state_def)
  from projection_value_by_phase [OF h, of demo_env 1 256 0 1] h show ?thesis
    by (simp add: demo_state_def)
qed

text \<open>
  With \<open>n_init = 0\<close> the store is empty when the first model-guided round starts: both
  models are trained, \<^verbatim>\<open>X[:, :-1]\<close> raises \<^verbatim>\<open>IndexError\<close>, and the estimator is never
  called.
\<close>

theorem empty_store_round_skips_projection:
  "fst (fabolas demo_env [0] [1] 1 256 0 1 100 200 0) = Inl IndexError
   \<and> last (trace (snd (fabolas demo_env [0] [1] 1 256 0 1 100 200 0)))
       = Model_trained Model_cost [] [] (Some True)
   \<and> projection_calls (trace (snd (fabolas demo_env [0] [1] 1 256 0 1 100 200 0))) = []"
  by (simp add: run_defs demo_defs)

section \<open>The first initial-design round\<close>

theorem first_initial_round_raises_witness:
  "(1::int) \<le> 2 \<and> (2::int) \<le> 3 \<and> length [0::real] = length [1::real] \<and> [0::real] \<noteq> []
   \<and> fst (fabolas demo_env [0] [1] 1 256 2 3 100 200 0) = Inl TypeError
   \<and> length (objective_calls (trace (snd (fabolas demo_env [0] [1] 1 256 2 3 100 200 0)))) = 1
   \<and> st_X (snd (fabolas demo_env [0] [1] 1 256 2 3 100 200 0)) = []
   \<and> incumbents (snd (fabolas demo_env [0] [1] 1 256 2 3 100 200 0)) = []"
  using first_initial_round_raises [of 2 3 "[0]" "[1]" demo_env 1 256 100 200 0]
  by simp

text \<open>
  Without a configuration dimension the variable \<^verbatim>\<open>kernel\<close> is still the integer \<open>1\<close>
  when \<^verbatim>\<open>len(kernel)\<close> is taken: the run raises \<^verbatim>\<open>TypeError\<close> there, before the
  initial design, and the objective function is never called.
\<close>

theorem no_dimension_no_objective_call:
  "fst (fabolas demo_env [] [] 1 256 1 1 100 200 0) = Inl TypeError
   \<and> objective_calls (trace (snd (fabolas demo_env [] [] 1 256 1 1 100 200 0))) = []"
  by (simp add: run_defs demo_env_def)

text \<open>
  C1. Each initial-design round should append the augmented point (the drawn configuration
  followed by the transformed fidelity) and the observed value and cost to the store. The
  round as written calls the objective function and then raises \<^verbatim>\<open>TypeError\<close> at
  \<^verbatim>\<open>transform(s)\<close>: \<open>X\<close>, \<open>y\<close> and \<open>c\<close> are left as they were.
\<close>

theorem initial_round_appends_nothing:
  "fst (init_round env lower upper s_max time_start i st) = Inl TypeError
   \<and> st_X (snd (init_round env lower upper s_max time_start i st)) = st_X st
   \<and> st_y (snd (init_round env lower upper s_max time_start i st)) = st_y st
   \<and> st_c (snd (init_round env lower upper s_max time_start i st)) = st_c st
   \<and> length (objective_calls (trace (snd (init_round env lower upper s_max time_start i st))))
       = Suc (length (objective_calls (trace st)))"
  by (simp add: init_round_aborts init_round_store init_round_trace objective_calls_append)

theorem initial_round_appends_nothing_witness:
  "fst (init_round demo_env [0] [1] 256 0 0 (initial_state 0)) = Inl TypeError
   \<and> st_X (snd (init_round demo_env [0] [1] 256 0 0 (initial_state 0))) = []
   \<and> objective_calls (trace (snd (init_round demo_env [0] [1] 256 0 0 (initial_state 0))))
       = [([0], 1)]"
  using initial_round_appends_nothing [of demo_env "[0]" "[1]" 256 0 0 "initial_state 0"]
  by (simp add: run_defs demo_env_def)

section \<open>The incumbent of an initial-design round\<close>

lemma first_min_less: "ys \<noteq> [] \<Longrightarrow> first_min ys < length ys"
  by (induction ys rule: first_min.induct) (simp_all add: Let_def)

lemma init_bookkeeping_records:
  assumes "length (st_y st) = length (st_X st)"
  shows "fst (init_bookkeeping env s_max t0 t1 x v k s_t st) = Inr ()"
    and "incumbents (snd (init_bookkeeping env s_max t0 t1 x v k s_t st))
         = incumbents st @ [((st_X st @ [x @ [s_t]]) ! first_min (st_y st @ [v])) @ [s_max]]"
  using assms first_min_less [of "st_y st @ [v]"]
  by (simp_all add: init_bookkeeping_def np_argmin_def split_def Let_def snd_calls)

text \<open>
  C7. In an initial-design round the recorded incumbent should be the configuration of the
  best observation so far, reported at fidelity \<open>s_max\<close>: a vector of length \<open>D + 1\<close>. As
  written, the round records no incumbent (it raises before that line), and the line itself
  appends \<open>s_max\<close> to the whole row of the store, the transformed fidelity included: a vector
  of length \<open>D + 2\<close>.
\<close>

theorem initial_incumbent_keeps_transformed_fidelity:
  assumes "length x = D" and "list_all (\<lambda>r. length r = Suc D) (st_X st)"
    and "length (st_y st) = length (st_X st)"
  shows "incumbents (snd (init_round env lower upper s_max t0 i st)) = incumbents st
       \<and> fst (init_bookkeeping env s_max t0 t1 x v k s_t st) = Inr ()
       \<and> incumbents (snd (init_bookkeeping env s_max t0 t1 x v k s_t st))
           = incumbents st
             @ [((st_X st @ [x @ [s_t]]) ! first_min (st_y st @ [v])) @ [s_max]]
       \<and> length (last (incumbents (snd (init_bookkeeping env s_max t0 t1 x v k s_t st))))
           = D + 2"
proof -
  have rows: "list_all (\<lambda>r. length r = Suc D) (st_X st @ [x @ [s_t]])"
    using assms(1,2) by simp
  have "first_min (st_y st @ [v]) < length (st_X st @ [x @ [s_t]])"
    using first_min_less [of "st_y st @ [v]"] assms(3) by simp
  with rows have "length ((st_X st @ [x @ [s_t]]) ! first_min (st_y st @ [v])) = Suc D"
    by (simp only: list_all_length)
  with init_bookkeeping_records [OF assms(3)] show ?thesis
    by (simp add: init_round_store)
qed

theorem initial_incumbent_keeps_transformed_fidelity_witness:
  "length [1 / 2 :: real] = 1 \<and> list_all (\<lambda>r. length r = Suc 1) (st_X demo_state)
   \<and> length (st_y demo_state) = length (st_X demo_state)
   \<and> incumbents (snd (init_round demo_env [0] [1] 256 0 1 demo_state)) = [[0, 0, 256]]
   \<and> incumbents (snd (init_bookkeeping demo_env 256 0 0 [1 / 2] 1 4 (3 / 8) demo_state))
       = [[0, 0, 256], [1 / 2, 3 / 8, 256]]"
proof -
  have h: "length [1 / 2 :: real] = 1" "list_all (\<lambda>r. length r = Suc 1) (st_X demo_state)"
    "length (st_y demo_state) = length (st_X demo_state)"
    by (simp_all add: demo_state_def)
  from initial_incumbent_keeps_transformed_fidelity [OF h, of demo_env "[0]" "[1]" 256 0 1 0 1 4
      "3 / 8"] h
  show ?thesis
    by (simp add: demo_state_def)
qed

section \<open>The fidelity schedule of the initial design\<close>

lemma cycle_position: "i mod 4 = 0 \<or> i mod 4 = 1 \<or> i mod 4 = 2 \<or> i mod (4::int) = 3"
  by presburger

lemma initial_fidelity_divisor:
  "initial_fidelity s_max i = py_int (s_max / (256 / 2 ^ nat (i mod 4)))"
  using cycle_position [of i]
  by (auto simp add: initial_fidelity_def subsets_def numeral_3_eq_3)

lemma py_int_mono: "0 \<le> v \<Longrightarrow> v \<le> w \<Longrightarrow> py_int v \<le> py_int w"
  by (simp add: py_int_def floor_mono)

text \<open>
  C8, amended. The raw fidelity of initial-design round \<open>i\<close> is
  \<^verbatim>\<open>int(s_max / subsets[i % 4])\<close> with the divisors \<open>256, 128, 64, 32\<close> taken in that
  (descending) order: the selection repeats with period four and, for \<open>s_max \<ge> 0\<close>, the
  fidelities within one cycle ascend. It is the fidelity the round passes to the objective
  function.
\<close>

theorem initial_fidelity_schedule:
  assumes "0 \<le> s_max"
  shows "initial_fidelity s_max i = py_int (s_max / (256 / 2 ^ nat (i mod 4)))
       \<and> initial_fidelity s_max (i + 4) = initial_fidelity s_max i
       \<and> (i mod 4 \<le> j mod 4 \<longrightarrow> initial_fidelity s_max i \<le> initial_fidelity s_max j)
       \<and> objective_calls (trace (snd (init_round env lower upper s_max t0 i st)))
           = objective_calls (trace st)
             @ [(fst (draw_configuration env lower upper (snd (time_time env st))),
                 of_int (initial_fidelity s_max i))]"
proof (intro conjI impI)
  show "initial_fidelity s_max i = py_int (s_max / (256 / 2 ^ nat (i mod 4)))"
    by (rule initial_fidelity_divisor)
  show "initial_fidelity s_max (i + 4) = initial_fidelity s_max i"
    by (simp add: initial_fidelity_def subsets_def)
  show "objective_calls (trace (snd (init_round env lower upper s_max t0 i st)))
           = objective_calls (trace st)
             @ [(fst (draw_configuration env lower upper (snd (time_time env st))),
                 of_int (initial_fidelity s_max i))]"
    by (simp add: init_round_trace objective_calls_append)
next
  assume "i mod 4 \<le> j mod 4"
  then have "nat (i mod 4) \<le> nat (j mod 4)"
    by simp
  then have "(2::real) ^ nat (i mod 4) \<le> 2 ^ nat (j mod 4)"
    by (simp add: power_increasing)
  with assms have "s_max * 2 ^ nat (i mod 4) \<le> s_max * 2 ^ nat (j mod 4)"
    by (simp add: mult_left_mono)
  then have "s_max / (256 / 2 ^ nat (i mod 4)) \<le> s_max / (256 / 2 ^ nat (j mod 4))"
    by simp
  moreover from assms have "0 \<le> s_max / (256 / 2 ^ nat (i mod 4))"
    by simp
  ultimately show "initial_fidelity s_max i \<le> initial_fidelity s_max j"
    by (simp only: initial_fidelity_divisor py_int_mono)
qed

theorem initial_fidelity_schedule_witness:
  "(0::real) \<le> 256
   \<and> initial_fidelity 256 5 = py_int (256 / (256 / 2 ^ nat (5 mod 4)))
   \<and> initial_fidelity 256 (5 + 4) = initial_fidelity 256 5
   \<and> (5::int) mod 4 \<le> 6 mod 4
   \<and> initial_fidelity 256 5 \<le> initial_fidelity 256 6
   \<and> objective_calls (trace (snd (init_round demo_env [0] [1] 256 0 5 (initial_state 0))))
       = [([0], 2)]"
proof -
  have h: "(0::real) \<le> 256"
    by simp
  from initial_fidelity_schedule [OF h, of 5 6 demo_env "[0]" "[1]" 0 "initial_state 0"]
  show ?thesis
    by (simp add: run_defs demo_env_def)
qed

text \<open>For \<open>s_max = 256\<close> the first six rounds select the fidelities 1, 2, 4, 8, 1, 2.\<close>

theorem initial_fidelities_ascend:
  "map (initial_fidelity 256) [0, 1, 2, 3, 4, 5] = [1, 2, 4, 8, 1, 2]
   \<and> initial_fidelity 256 0 < initial_fidelity 256 1"
  by (simp add: initial_fidelity_def subsets_def py_int_def)

section \<open>The two loops as one sequence of rounds\<close>

lemma for_each_append:
  "for_each body (ks @ ks') st =
     (case for_each body ks st of
        (Inl e, st') \<Rightarrow> (Inl e, st')
      | (Inr u, st') \<Rightarrow> for_each body ks' st')"
  by (induction ks arbitrary: st) (simp_all split: prod.splits sum.splits)

lemma for_each_cong:
  "(\<And>k st. k \<in> set ks \<Longrightarrow> body k st = body' k st)
   \<Longrightarrow> for_each body ks st = for_each body' ks st"
  by (induction ks arbitrary: st) (simp_all split: prod.splits sum.splits)

lemma py_range_split:
  assumes "a \<le> m" and "m \<le> b"
  shows "py_range a b = py_range a m @ py_range m b"
proof (cases "m = b")
  case True
  then show ?thesis
    by (simp add: py_range_def)
next
  case False
  with assms have "a \<le> m" and "m \<le> b - 1"
    by simp_all
  then show ?thesis
    unfolding py_range_def by (rule upto_split1)
qed

lemma loops_as_rounds:
  assumes "0 \<le> n_init" and "n_init \<le> num_iterations"
  shows "for_each (fabolas_round env lower upper s_min s_max n_init t0)
           (py_range 0 num_iterations) st
         = (case for_each (init_round env lower upper s_max t0) (py_range 0 n_init) st of
              (Inl e, st') \<Rightarrow> (Inl e, st')
            | (Inr u, st') \<Rightarrow>
                for_each (guided_round env s_min s_max t0) (py_range n_init num_iterations) st')"
proof -
  have a: "for_each (fabolas_round env lower upper s_min s_max n_init t0) (py_range 0 n_init) st'
           = for_each (init_round env lower upper s_max t0) (py_range 0 n_init) st'" for st'
    by (rule for_each_cong) (simp add: py_range_def fabolas_round_def)
  have b: "for_each (fabolas_round env lower upper s_min s_max n_init t0)
             (py_range n_init num_iterations) st'
           = for_each (guided_round env s_min s_max t0) (py_range n_init num_iterations) st'"
    for st'
    by (rule for_each_cong) (simp add: py_range_def fabolas_round_def)
  show ?thesis
    by (simp only: py_range_split [OF assms] for_each_append a b)
qed

section \<open>No run returns\<close>

text \<open>
  Whatever the collaborators answer, the entry point ends in an exception: a violated
  precondition, \<^verbatim>\<open>len\<close> of an integer, the one-argument \<^verbatim>\<open>transform(s)\<close> of the first
  initial-design round, or, when there is no initial design, the two-index slice of the
  empty one-dimensional \<open>X\<close>.
\<close>

lemma build_models_store:
  "st_X (snd (build_models env lower upper burnin chain_length st)) = st_X st"
  by (simp add: build_models_def Let_def collaborate_def split: sum.splits)

lemma guided_round_empty_store:
  "st_X st = [] \<Longrightarrow> fst (guided_round env s_min s_max t0 it st) = Inl IndexError"
  by (simp add: guided_round_def split_def Let_def snd_calls collaborate_def
      drop_last_column_def)

lemma finalization_empty_store:
  "st_X st = [] \<Longrightarrow> fst (finalization env s_max st) = Inl IndexError"
  by (simp add: finalization_def split_def Let_def snd_calls collaborate_def
      drop_last_column_def)

lemma for_each_first_aborts:
  assumes "\<And>k. fst (body k st) = Inl e"
  shows "ks = [] \<or> fst (for_each body ks st) = Inl e"
proof (cases ks)
  case Nil
  then show ?thesis by simp
next
  case (Cons k rest)
  have "for_each body (k # rest) st = (Inl e, snd (body k st))"
    using assms [of k] by (rule for_each_abort)
  with Cons show ?thesis
    by simp
qed

lemma fabolas_always_raises:
  "\<exists>e. fst (fabolas env lower upper s_min s_max n_init num_iterations burnin chain_length w)
        = Inl e"
proof (cases "n_init \<le> num_iterations \<and> length lower = length upper")
  case False
  then show ?thesis
    by (auto simp add: fabolas_def Let_def)
next
  case True
  let ?t0 = "fst (time_time env (initial_state w))"
  let ?st1 = "snd (time_time env (initial_state w))"
  obtain r st2 where built: "build_models env lower upper burnin chain_length ?st1 = (r, st2)"
    by (cases "build_models env lower upper burnin chain_length ?st1")
  then have st2: "st_X st2 = []"
    using build_models_store [of env lower upper burnin chain_length ?st1]
    by (simp add: snd_time_time initial_state_def)
  obtain r3 st3 where init:
    "for_each (init_round env lower upper s_max ?t0) (py_range 0 n_init) st2 = (r3, st3)"
    by (cases "for_each (init_round env lower upper s_max ?t0) (py_range 0 n_init) st2")
  obtain r4 st4 where guided:
    "for_each (guided_round env s_min s_max ?t0) (py_range n_init num_iterations) st3 = (r4, st4)"
    by (cases "for_each (guided_round env s_min s_max ?t0) (py_range n_init num_iterations) st3")
  show ?thesis
  proof (cases r)
    case (Inl e)
    with True show ?thesis
      by (simp add: fabolas_def Let_def split_def built)
  next
    case r: (Inr u)
    show ?thesis
    proof (cases r3)
      case (Inl e)
      with True r show ?thesis
        by (simp add: fabolas_def Let_def split_def built init)
    next
      case r3: (Inr u3)
      have "py_range 0 n_init = [] \<or> fst (for_each (init_round env lower upper s_max ?t0)
              (py_range 0 n_init) st2) = Inl TypeError"
        by (rule for_each_first_aborts) (rule init_round_aborts)
      with init r3 have st3: "st3 = st2"
        by auto
      show ?thesis
      proof (cases r4)
        case (Inl e)
        with True r r3 show ?thesis
          by (simp add: fabolas_def Let_def split_def built init guided)
      next
        case r4: (Inr u4)
        have "py_range n_init num_iterations = []
              \<or> fst (for_each (guided_round env s_min s_max ?t0)
                      (py_range n_init num_iterations) st2) = Inl IndexError"
          by (rule for_each_first_aborts) (rule guided_round_empty_store [OF st2])
        with guided r4 st3 have "st4 = st2"
          by auto
        with st2 have "fst (finalization env s_max st4) = Inl IndexError"
          by (simp add: finalization_empty_store)
        with True r r3 r4 show ?thesis
          by (simp add: fabolas_def Let_def split_def built init guided)
      qed
    qed
  qed
qed

end
